theory Spec2Isabelle
  imports Complex_Main "HOL-Library.AList" "HOL-Library.Sublist"
begin

section \<open>Numbers\<close>

text \<open>
  A JavaScript \<open>number\<close> is NaN, one of the two infinities, or a finite value. Every finite
  binary64 value is a rational, so finite numbers are embedded in \<open>rat\<close>. The program only
  tests finiteness and takes minima and maxima of numbers, which are exact on binary64; the
  sign of zero is not kept.
\<close>

datatype number = NaN | PosInf | NegInf | Fin rat

fun isFinite :: "number \<Rightarrow> bool" where
  "isFinite (Fin q) = True"
| "isFinite NaN = False"
| "isFinite PosInf = False"
| "isFinite NegInf = False"

text \<open>\<open>Math.min\<close> and \<open>Math.max\<close> of two arguments: NaN if either argument is NaN.\<close>

fun Math_min :: "number \<Rightarrow> number \<Rightarrow> number" where
  "Math_min NaN y = NaN"
| "Math_min x NaN = NaN"
| "Math_min NegInf y = NegInf"
| "Math_min x NegInf = NegInf"
| "Math_min PosInf y = y"
| "Math_min x PosInf = x"
| "Math_min (Fin a) (Fin b) = Fin (min a b)"

fun Math_max :: "number \<Rightarrow> number \<Rightarrow> number" where
  "Math_max NaN y = NaN"
| "Math_max x NaN = NaN"
| "Math_max PosInf y = PosInf"
| "Math_max x PosInf = PosInf"
| "Math_max NegInf y = y"
| "Math_max x NegInf = x"
| "Math_max (Fin a) (Fin b) = Fin (max a b)"

section \<open>Limit and StatLimits\<close>

text \<open>Class \<open>Limit\<close>; its fields \<open>min\<close> and \<open>max\<close> are \<open>lmin\<close> and \<open>lmax\<close> here.\<close>

record Limit =
  lmin :: number
  lmax :: number

definition new_Limit :: Limit where
  "new_Limit = \<lparr>lmin = PosInf, lmax = NegInf\<rparr>"

definition expandRange :: "number \<Rightarrow> Limit \<Rightarrow> Limit" where
  "expandRange newNumber this =
     (if \<not> isFinite newNumber then this
      else \<lparr>lmin = Math_min newNumber (lmin this), lmax = Math_max newNumber (lmax this)\<rparr>)"

text \<open>Feeding a sequence of values into one Limit, in order.\<close>

definition expandAll :: "number list \<Rightarrow> Limit \<Rightarrow> Limit" where
  "expandAll vs l = foldl (\<lambda>l v. expandRange v l) l vs"

section \<open>Strings\<close>

text \<open>
  A JavaScript string is a sequence of UTF-16 code units; a code unit is a natural number
  here. \<open>lit\<close> turns an ASCII literal into its code units.
\<close>

type_synonym jstring = "nat list"

definition lit :: "string \<Rightarrow> jstring" where
  "lit s = map of_char s"

text \<open>The code units that \<open>String.prototype.trim\<close> strips: WhiteSpace and LineTerminator.\<close>

definition isWhiteSpace :: "nat \<Rightarrow> bool" where
  "isWhiteSpace c \<longleftrightarrow>
     c \<in> {9, 10, 11, 12, 13, 32, 160, 5760, 8232, 8233, 8239, 8287, 12288, 65279}
     \<or> (8192 \<le> c \<and> c \<le> 8202)"

definition trimStart :: "jstring \<Rightarrow> jstring" where
  "trimStart s = dropWhile isWhiteSpace s"

definition trim :: "jstring \<Rightarrow> jstring" where
  "trim s = rev (dropWhile isWhiteSpace (rev (dropWhile isWhiteSpace s)))"

text \<open>\<open>s.indexOf(m)\<close>: the first position at which \<open>m\<close> occurs in \<open>s\<close>; \<open>None\<close> is \<open>-1\<close>.\<close>

fun indexOf :: "jstring \<Rightarrow> jstring \<Rightarrow> nat option" where
  "indexOf [] m = (if m = [] then Some 0 else None)"
| "indexOf (c # s) m =
     (if prefix m (c # s) then Some 0 else map_option Suc (indexOf s m))"

text \<open>
  \<open>s.substring(a, b)\<close> clamps both indices to the length and swaps them when \<open>a > b\<close>;
  \<open>s.substring(a)\<close> runs to the end of the string.
\<close>

definition substring :: "jstring \<Rightarrow> nat \<Rightarrow> nat \<Rightarrow> jstring" where
  "substring s a b =
     (let a' = min a (length s); b' = min b (length s)
      in take (max a' b' - min a' b') (drop (min a' b') s))"

definition substring_from :: "jstring \<Rightarrow> nat \<Rightarrow> jstring" where
  "substring_from s a = drop (min a (length s)) s"

section \<open>Map objects\<close>

text \<open>
  A JavaScript \<open>Map\<close> keeps its keys in insertion order; \<open>set\<close> on a key that is present
  replaces the value and keeps the position. It is an association list with distinct
  keys, \<open>set\<close> is \<open>AList.update\<close> and \<open>get\<close> is \<open>map_of\<close>. \<open>Map_new\<close> is the constructor
  from a sequence of entries, which sets them one after the other.
\<close>

type_synonym ('k, 'v) Map = "('k \<times> 'v) list"

definition Map_set :: "'k \<Rightarrow> 'v \<Rightarrow> ('k, 'v) Map \<Rightarrow> ('k, 'v) Map" where
  "Map_set k v m = AList.update k v m"

definition Map_get :: "('k, 'v) Map \<Rightarrow> 'k \<Rightarrow> 'v option" where
  "Map_get m k = map_of m k"

definition Map_new :: "('k \<times> 'v) list \<Rightarrow> ('k, 'v) Map" where
  "Map_new entries = foldl (\<lambda>m (k, v). Map_set k v m) [] entries"

definition Map_keys :: "('k, 'v) Map \<Rightarrow> 'k list" where
  "Map_keys m = map fst m"

definition Map_values :: "('k, 'v) Map \<Rightarrow> 'v list" where
  "Map_values m = map snd m"

section \<open>The reference database and the Name Resolution Index\<close>

text \<open>
  One record of \<open>countries-unescaped.json\<close>, with the fields the program reads.
  \<open>name_native\<close> lists the entries of \<open>name.native\<close> in the order \<open>for ... in\<close> visits
  them: language, common name, official name.
\<close>

record CountryJson =
  cca3 :: jstring
  name_common :: jstring
  name_official :: jstring
  name_native :: "(jstring \<times> jstring \<times> jstring) list"
  altSpellings :: "jstring list"
  region :: jstring

definition forcedCountryNames :: "(jstring, jstring list) Map" where
  "forcedCountryNames = Map_new
     [(lit ''BRN'', [lit ''Brunei Darussalam'']),
      (lit ''PSE'', [lit ''Palestine, State of'']),
      (lit ''STP'', [lit ''Sao Tome and Principe'']),
      (lit ''MKD'', [lit ''The former Yugoslav Republic of Macedonia'']),
      (lit ''HKG'', [lit ''Hong Kong, China (SAR)'']),
      (lit ''COG'', [lit ''Congo (Democratic Republic of the)'']),
      (lit ''COD'', [lit ''Congo''])]"

definition marker :: jstring where
  "marker = lit '' of ''"

text \<open>
  The body of the first \<open>forEach\<close> of \<open>readCountryInfoDB\<close>: the variation pushed for one
  name, if any.
\<close>

definition orderVariation :: "jstring \<Rightarrow> jstring option" where
  "orderVariation country =
     (case indexOf country marker of
        None \<Rightarrow> None
      | Some ofPos \<Rightarrow>
          (let prefix = trim (substring country 0 (ofPos + length marker));
               countryName = trim (substring_from country (ofPos + length marker))
           in Some (countryName @ lit '' ('' @ prefix @ lit '')'')))"

text \<open>The names of a record before the variations are derived: common, official, native.\<close>

definition baseNames :: "CountryJson \<Rightarrow> jstring list" where
  "baseNames country =
     [name_common country, name_official country]
     @ concat (map (\<lambda>(lang, common, official). [common, official]) (name_native country))"

definition forcedNames :: "CountryJson \<Rightarrow> jstring list" where
  "forcedNames country =
     (case Map_get forcedCountryNames (cca3 country) of None \<Rightarrow> [] | Some fs \<Rightarrow> fs)"

text \<open>The array \<open>alternateNames\<close> of one record when it is written into the index.\<close>

definition alternateNames :: "CountryJson \<Rightarrow> jstring list" where
  "alternateNames country =
     baseNames country
     @ List.map_filter orderVariation (baseNames country)
     @ altSpellings country
     @ forcedNames country"

definition addCountry :: "(jstring, jstring) Map \<Rightarrow> CountryJson \<Rightarrow> (jstring, jstring) Map" where
  "addCountry nameDB country =
     foldl (\<lambda>db name. Map_set name (cca3 country) db) nameDB (alternateNames country)"

definition buildNameDB :: "CountryJson list \<Rightarrow> (jstring, jstring) Map" where
  "buildNameDB srcJson = foldl addCountry [] srcJson"

section \<open>Properties of the Limit Tracker\<close>

lemma Math_min_commute: "Math_min x y = Math_min y x"
  by (cases x; cases y) (simp_all add: min.commute)

lemma Math_max_commute: "Math_max x y = Math_max y x"
  by (cases x; cases y) (simp_all add: max.commute)

lemma Math_min_left_idem: "Math_min x (Math_min x y) = Math_min x y"
  by (cases x; cases y) simp_all

lemma Math_max_left_idem: "Math_max x (Math_max x y) = Math_max x y"
  by (cases x; cases y) simp_all

lemma expandRange_not_finite: "\<not> isFinite v \<Longrightarrow> expandRange v l = l"
  by (simp add: expandRange_def)

lemma expandRange_idem: "expandRange v (expandRange v l) = expandRange v l"
  by (simp add: expandRange_def Math_min_left_idem Math_max_left_idem)

lemma expandAll_Nil: "expandAll [] l = l"
  by (simp add: expandAll_def)

lemma expandAll_Cons: "expandAll (v # vs) l = expandAll vs (expandRange v l)"
  by (simp add: expandAll_def)

lemma expandAll_append: "expandAll (vs @ ws) l = expandAll ws (expandAll vs l)"
  by (simp add: expandAll_def)

lemma expandAll_not_finite: "\<forall>v\<in>set vs. \<not> isFinite v \<Longrightarrow> expandAll vs l = l"
  by (induction vs arbitrary: l) (simp_all add: expandAll_Nil expandAll_Cons expandRange_not_finite)

text \<open>
  Claim C6. \<open>expandRange\<close> leaves the Limit unchanged for every non-finite value (NaN and
  both infinities); for a finite value it sets \<open>min\<close> to the minimum of \<open>min\<close> and the value
  and \<open>max\<close> to the maximum of \<open>max\<close> and the value; applying it twice with the same value
  is the same as applying it once; a fresh Limit fed 3, 1, 4, 1, 5, NaN, 9 ends as
  \<open>{min: 1, max: 9}\<close>; and a fresh Limit fed only non-finite values stays
  \<open>{min: +infinity, max: -infinity}\<close>.
\<close>

theorem C6_expandRange:
  "expandRange NaN l = l \<and> expandRange PosInf l = l \<and> expandRange NegInf l = l
   \<and> (\<not> isFinite v \<longrightarrow> expandRange v l = l)
   \<and> (isFinite v \<longrightarrow> lmin (expandRange v l) = Math_min (lmin l) v
                      \<and> lmax (expandRange v l) = Math_max (lmax l) v)
   \<and> expandRange v (expandRange v l) = expandRange v l
   \<and> expandAll [Fin 3, Fin 1, Fin 4, Fin 1, Fin 5, NaN, Fin 9] new_Limit
       = \<lparr>lmin = Fin 1, lmax = Fin 9\<rparr>
   \<and> ((\<forall>w\<in>set ws. \<not> isFinite w) \<longrightarrow>
        expandAll ws new_Limit = \<lparr>lmin = PosInf, lmax = NegInf\<rparr>)"
proof -
  have fin: "isFinite v \<longrightarrow> lmin (expandRange v l) = Math_min (lmin l) v
                      \<and> lmax (expandRange v l) = Math_max (lmax l) v"
    by (simp add: expandRange_def Math_min_commute [of v] Math_max_commute [of v])
  have seq: "expandAll [Fin 3, Fin 1, Fin 4, Fin 1, Fin 5, NaN, Fin 9] new_Limit
       = \<lparr>lmin = Fin 1, lmax = Fin 9\<rparr>"
    by (simp add: expandAll_def expandRange_def new_Limit_def)
  have nonfin: "(\<forall>w\<in>set ws. \<not> isFinite w) \<longrightarrow>
        expandAll ws new_Limit = \<lparr>lmin = PosInf, lmax = NegInf\<rparr>"
    using expandAll_not_finite [of ws new_Limit] by (simp add: new_Limit_def)
  show ?thesis
    using fin seq nonfin by (simp add: expandRange_not_finite expandRange_idem)
qed

theorem C6_expandRange_witness:
  "isFinite (Fin 2)
   \<and> lmin (expandRange (Fin 2) \<lparr>lmin = Fin 3, lmax = Fin 7\<rparr>) = Fin 2
   \<and> lmax (expandRange (Fin 2) \<lparr>lmin = Fin 3, lmax = Fin 7\<rparr>) = Fin 7
   \<and> \<not> isFinite NaN \<and> \<not> isFinite PosInf \<and> \<not> isFinite NegInf
   \<and> expandAll [NaN, PosInf, NegInf, NaN] new_Limit = \<lparr>lmin = PosInf, lmax = NegInf\<rparr>"
  using C6_expandRange [of "\<lparr>lmin = Fin 3, lmax = Fin 7\<rparr>" "Fin 2" "[NaN, PosInf, NegInf, NaN]"]
  by simp

end
